theory Spec2Isabelle
  imports Complex_Main
begin

section \<open>The POI client of get\_poi-osm: query construction and result normalisation\<close>

text \<open>
  The development follows \<^verbatim>\<open>src/src/PoiOsm.cpp\<close>. The functions of the class
  \<^verbatim>\<open>PoiOsmClient\<close> and the helpers beside it are translated one by one and keep their
  names, the private ones without their trailing underscore. What the program takes from
  its libraries is not part of the repository. The value API of nlohmann::json is
  modelled below as the library documents it. The operations that depend on floating
  point, on the network or on the clock (the JSON parser, \<^verbatim>\<open>std::stod\<close>,
  \<^verbatim>\<open>std::format\<close> on a double, libcurl, the time) are fields of the record
  \<open>stdlib\<close>, over an arbitrary type \<open>'d\<close> of doubles: what is proved with a variable
  \<open>lib\<close> holds for every such library, and the examples run the program with the one
  library \<open>sample_lib\<close>.
\<close>

subsection \<open>JSON values, exceptions and results\<close>

text \<open>
  \<^verbatim>\<open>nlohmann::json\<close>. An object is a \<^verbatim>\<open>std::map\<close>: the list of a \<open>JObject\<close> holds
  its entries in the map's iteration order, and a key is looked up with \<open>map_of\<close>.
  Signed and unsigned integers share \<open>JInt\<close>.
\<close>

datatype 'd json =
    JNull
  | JBool bool
  | JInt int
  | JFloat 'd
  | JString string
  | JArray "'d json list"
  | JObject "(string \<times> 'd json) list"

text \<open>
  The exceptions the code can meet, each with its \<^verbatim>\<open>what()\<close> text.
  \<open>parse_error\<close>, \<open>type_error\<close> and \<open>json_out_of_range\<close> are the classes of
  nlohmann::json; \<open>std_exception\<close> stands for the \<^verbatim>\<open>std::invalid_argument\<close> and
  \<^verbatim>\<open>std::out_of_range\<close> of \<^verbatim>\<open>std::stod\<close>. All of them derive from
  \<^verbatim>\<open>std::exception\<close>.
\<close>

datatype exn =
    parse_error string
  | type_error string
  | json_out_of_range string
  | std_exception string

fun what :: "exn \<Rightarrow> string" where
  "what (parse_error m) = m"
| "what (type_error m) = m"
| "what (json_out_of_range m) = m"
| "what (std_exception m) = m"

text \<open>\<^verbatim>\<open>std::expected<T, std::string>\<close>.\<close>

datatype 'a expected = Ok 'a | Unexpected string

text \<open>
  A computation that may throw: \<open>Inl\<close> is the exception in flight. \<open>seq\<close> runs the
  next statement only when the previous one has not thrown.
\<close>

definition seq :: "exn + 'a \<Rightarrow> ('a \<Rightarrow> exn + 'b) \<Rightarrow> exn + 'b" where
  "seq m f = (case m of Inl e \<Rightarrow> Inl e | Inr x \<Rightarrow> f x)"

text \<open>\<^verbatim>\<open>struct PoiWhitelistEntry { std::string key; std::string value; }\<close>.\<close>

record PoiWhitelistEntry =
  w_key :: string
  w_value :: string

text \<open>
  The end of a transfer: no handle, the error text of a transfer that failed
  (\<^verbatim>\<open>curl_easy_strerror\<close>), or the response code with the body received.
\<close>

datatype curl_outcome = CurlInitFailed | CurlError string | CurlResponse int string

text \<open>
  The library operations that are parameters of the model.
  \<^item> \<open>json_parse\<close>: \<^verbatim>\<open>nlohmann::json::parse\<close>;
  \<^item> \<open>stod\<close>: \<^verbatim>\<open>std::stod\<close>, the double or the \<^verbatim>\<open>what()\<close> text of the exception
    it throws;
  \<^item> \<open>double_of_int\<close>: the conversion of an integer JSON number to double;
  \<^item> \<open>d_zero\<close>: the literal \<^verbatim>\<open>0.0\<close>; \<open>eq_zero x\<close>: the test \<^verbatim>\<open>x == 0.0\<close>;
  \<^item> \<open>format_6f\<close>: \<^verbatim>\<open>std::format("{:.6f}", x)\<close>;
  \<^item> \<open>curl_easy_escape\<close>: the function of libcurl, \<open>None\<close> for its null result;
  \<^item> \<open>curl_perform url postData\<close>: what a handle set up for the URL (with the post
    fields, when \<open>postData\<close> is not empty) ends with;
  \<^item> \<open>current_iso_time\<close>: \<^verbatim>\<open>currentIsoTime()\<close>, the clock read and formatted.
\<close>

record 'd stdlib =
  json_parse :: "string \<Rightarrow> exn + 'd json"
  stod :: "string \<Rightarrow> string + 'd"
  double_of_int :: "int \<Rightarrow> 'd"
  d_zero :: "'d"
  eq_zero :: "'d \<Rightarrow> bool"
  format_6f :: "'d \<Rightarrow> string"
  curl_easy_escape :: "string \<Rightarrow> string option"
  curl_perform :: "string \<Rightarrow> string \<Rightarrow> curl_outcome"
  current_iso_time :: "string"

subsection \<open>The value API of nlohmann::json that the code uses\<close>

fun type_name :: "'d json \<Rightarrow> string" where
  "type_name JNull = ''null''"
| "type_name (JBool _) = ''boolean''"
| "type_name (JInt _) = ''number''"
| "type_name (JFloat _) = ''number''"
| "type_name (JString _) = ''string''"
| "type_name (JArray _) = ''array''"
| "type_name (JObject _) = ''object''"

fun is_array :: "'d json \<Rightarrow> bool" where
  "is_array (JArray _) = True"
| "is_array _ = False"

fun is_object :: "'d json \<Rightarrow> bool" where
  "is_object (JObject _) = True"
| "is_object _ = False"

text \<open>
  \<open>lookup j k\<close> is the entry of an object under a key. \<^verbatim>\<open>j.contains(k)\<close> is
  \<open>lookup j k \<noteq> None\<close> (false on a value that is not an object), and on an object that
  contains the key \<^verbatim>\<open>j[k]\<close> is the value found.
\<close>

fun lookup :: "'d json \<Rightarrow> string \<Rightarrow> 'd json option" where
  "lookup (JObject kvs) k = map_of kvs k"
| "lookup _ k = None"

definition json_contains :: "'d json \<Rightarrow> string \<Rightarrow> bool" where
  "json_contains j k = (lookup j k \<noteq> None)"

text \<open>\<^verbatim>\<open>j.get<std::string>()\<close> and \<^verbatim>\<open>j.get<double>()\<close>: type error 302 on another type.\<close>

definition get_string :: "'d json \<Rightarrow> exn + string" where
  "get_string j = (case j of
       JString s \<Rightarrow> Inr s
     | _ \<Rightarrow> Inl (type_error
         (''[json.exception.type_error.302] type must be string, but is '' @ type_name j)))"

definition get_double :: "'d stdlib \<Rightarrow> 'd json \<Rightarrow> exn + 'd" where
  "get_double lib j = (case j of
       JInt i \<Rightarrow> Inr (double_of_int lib i)
     | JFloat d \<Rightarrow> Inr d
     | _ \<Rightarrow> Inl (type_error
         (''[json.exception.type_error.302] type must be number, but is '' @ type_name j)))"

text \<open>
  \<^verbatim>\<open>j.value(key, default)\<close>: on an object the converted entry or the default, type
  error 306 on anything else. \<open>conv\<close> is the conversion to the type of the default.
\<close>

definition json_value :: "('d json \<Rightarrow> exn + 'a) \<Rightarrow> 'd json \<Rightarrow> string \<Rightarrow> 'a \<Rightarrow> exn + 'a" where
  "json_value conv j k dflt = (case j of
       JObject kvs \<Rightarrow> (case map_of kvs k of Some v \<Rightarrow> conv v | None \<Rightarrow> Inr dflt)
     | _ \<Rightarrow> Inl (type_error
         (''[json.exception.type_error.306] cannot use value() with '' @ type_name j)))"

text \<open>
  The values a range-based \<^verbatim>\<open>for\<close> visits: the elements of an array, the values of
  an object, nothing for null, and a scalar itself once.
\<close>

fun items :: "'d json \<Rightarrow> 'd json list" where
  "items (JArray xs) = xs"
| "items (JObject kvs) = map snd kvs"
| "items JNull = []"
| "items j = [j]"

subsection \<open>Strings\<close>

abbreviation dquote :: string where
  "dquote \<equiv> [CHR 0x22]"

text \<open>\<^verbatim>\<open>std::format("{}", n)\<close> on an \<^verbatim>\<open>int\<close>: the decimal numeral, with a minus sign.\<close>

definition digit_char :: "nat \<Rightarrow> char" where
  "digit_char d = ''0123456789'' ! d"

function show_nat :: "nat \<Rightarrow> string" where
  "show_nat n = (if n < 10 then [digit_char n] else show_nat (n div 10) @ [digit_char (n mod 10)])"
  by pat_completeness auto
termination
  by (relation "measure (\<lambda>n. n)") auto

declare show_nat.simps [simp del]

definition show_int :: "int \<Rightarrow> string" where
  "show_int i = (if i < 0 then ''-'' @ show_nat (nat (- i)) else show_nat (nat i))"

text \<open>\<^verbatim>\<open>s.find(pat) != std::string::npos\<close>.\<close>

fun found :: "string \<Rightarrow> string \<Rightarrow> bool" where
  "found pat [] = (pat = [])"
| "found pat (c # cs) = (take (length pat) (c # cs) = pat \<or> found pat cs)"

subsection \<open>The helpers \<^verbatim>\<open>urlEncode\<close> and \<^verbatim>\<open>performRequest\<close>\<close>

definition urlEncode :: "'d stdlib \<Rightarrow> string \<Rightarrow> string" where
  "urlEncode lib s = (case curl_easy_escape lib s of Some output \<Rightarrow> output | None \<Rightarrow> [])"

definition performRequest :: "'d stdlib \<Rightarrow> string \<Rightarrow> string \<Rightarrow> string expected" where
  "performRequest lib url postData = (case curl_perform lib url postData of
       CurlInitFailed \<Rightarrow> Unexpected ''Failed to initialize CURL''
     | CurlError m \<Rightarrow> Unexpected (''CURL request failed: '' @ m)
     | CurlResponse response_code readBuffer \<Rightarrow>
         if response_code \<ge> 400 then Unexpected (''HTTP Error: '' @ show_int response_code)
         else Ok readBuffer)"

subsection \<open>\<^verbatim>\<open>PoiOsmClient::buildOverpassQuery_\<close>\<close>

text \<open>\<^verbatim>\<open>std::format("around:{},{:.6f},{:.6f}", radiusMeters, lat, lon)\<close>.\<close>

definition around_center :: "'d stdlib \<Rightarrow> int \<Rightarrow> 'd \<Rightarrow> 'd \<Rightarrow> string" where
  "around_center lib radiusMeters lat lon =
     ''around:'' @ show_int radiusMeters @ '','' @ format_6f lib lat @ '','' @ format_6f lib lon"

text \<open>The text one whitelist entry appends to the query (the body of the loop).\<close>

definition node_filter :: "string \<Rightarrow> PoiWhitelistEntry \<Rightarrow> string" where
  "node_filter center w =
     (if w_value w = [] then
        ''node('' @ center @ '')['' @ dquote @ w_key w @ dquote @ ''];''
      else
        ''node('' @ center @ '')['' @ dquote @ w_key w @ dquote @ ''=''
          @ dquote @ w_value w @ dquote @ ''];'')"

text \<open>The loop over the whitelist; \<open>query\<close> is the string built so far.\<close>

fun query_loop :: "string \<Rightarrow> PoiWhitelistEntry list \<Rightarrow> string \<Rightarrow> string" where
  "query_loop center [] query = query"
| "query_loop center (w # ws) query = query_loop center ws (query @ node_filter center w)"

definition buildOverpassQuery ::
  "'d stdlib \<Rightarrow> 'd \<Rightarrow> 'd \<Rightarrow> int \<Rightarrow> PoiWhitelistEntry list \<Rightarrow> string" where
  "buildOverpassQuery lib lat lon radiusMeters whitelist =
     (let query = ''[out:json][timeout:25];('';
          center = around_center lib radiusMeters lat lon;
          query = (if whitelist = [] then query @ ''node('' @ center @ '');''
                   else query_loop center whitelist query)
      in query @ '');out center;'')"

subsection \<open>\<^verbatim>\<open>PoiOsmClient::buildResultJson_\<close>\<close>

text \<open>
  The inner loop over the whitelist, entered with \<open>accepted = false\<close>: the result is the
  final value of \<open>accepted\<close>. The conversion \<^verbatim>\<open>std::string val = tags[w.key]\<close> throws
  on a tag value that is not a string, before the entry's value is looked at.
\<close>

fun whitelist_loop :: "PoiWhitelistEntry list \<Rightarrow> 'd json \<Rightarrow> exn + bool" where
  "whitelist_loop [] tags = Inr False"
| "whitelist_loop (w # ws) tags =
     (case lookup tags (w_key w) of
        None \<Rightarrow> whitelist_loop ws tags
      | Some v \<Rightarrow>
          seq (get_string v) (\<lambda>val.
            if w_value w = [] \<or> val = w_value w then Inr True
            else whitelist_loop ws tags))"

text \<open>
  The body of the loop over the elements: \<open>Inr None\<close> is \<^verbatim>\<open>continue\<close>, \<open>Inr (Some poi)\<close>
  is the object pushed to \<open>poisArray\<close>.
\<close>

definition poi_of_element ::
  "'d stdlib \<Rightarrow> PoiWhitelistEntry list \<Rightarrow> 'd json \<Rightarrow> exn + 'd json option" where
  "poi_of_element lib whitelist obj =
     seq (json_value get_string obj ''type'' []) (\<lambda>ty.
       if ty \<noteq> ''node'' then Inr None
       else
         seq (json_value (get_double lib) obj ''lat'' (d_zero lib)) (\<lambda>lat.
         seq (json_value (get_double lib) obj ''lon'' (d_zero lib)) (\<lambda>lon.
         seq (json_value Inr obj ''tags'' (JObject [])) (\<lambda>tags.
         seq (if whitelist = [] then Inr True else whitelist_loop whitelist tags) (\<lambda>accepted.
           if \<not> accepted then Inr None
           else Inr (Some (JObject
             [(''lat'', JFloat lat),
              (''lon'', JFloat lon),
              (''name'', (case lookup tags ''name'' of Some n \<Rightarrow> n | None \<Rightarrow> JNull)),
              (''tags'', tags)])))))))"

fun pois_loop ::
  "'d stdlib \<Rightarrow> PoiWhitelistEntry list \<Rightarrow> 'd json list \<Rightarrow> 'd json list \<Rightarrow> exn + 'd json list" where
  "pois_loop lib whitelist [] poisArray = Inr poisArray"
| "pois_loop lib whitelist (obj # rest) poisArray =
     seq (poi_of_element lib whitelist obj) (\<lambda>r.
       case r of
         None \<Rightarrow> pois_loop lib whitelist rest poisArray
       | Some poi \<Rightarrow> pois_loop lib whitelist rest (poisArray @ [poi]))"

definition whitelist_json :: "PoiWhitelistEntry list \<Rightarrow> 'd json" where
  "whitelist_json whitelist =
     JArray (map (\<lambda>w. JObject [(''key'', JString (w_key w)), (''value'', JString (w_value w))])
       whitelist)"

definition buildResultJson ::
  "'d stdlib \<Rightarrow> 'd \<Rightarrow> 'd \<Rightarrow> int \<Rightarrow> PoiWhitelistEntry list \<Rightarrow> 'd json \<Rightarrow> 'd json
     \<Rightarrow> exn + 'd json" where
  "buildResultJson lib centerLat centerLon radiusMeters whitelist elements queryInput =
     (let source = JObject
            [(''geocoder'', JString ''Nominatim''),
             (''overpass_endpoint'', JString ''https://overpass-api.de/api/interpreter''),
             (''provider'', JString ''OpenStreetMap'')];
          resolvedCenter = JObject [(''lat'', JFloat centerLat), (''lon'', JFloat centerLon)];
          query = JObject
            [(''input'', queryInput),
             (''radius_m'', JInt radiusMeters),
             (''resolved_center'', resolvedCenter),
             (''timestamp_utc'', JString (current_iso_time lib)),
             (''whitelist'', whitelist_json whitelist)]
      in seq (pois_loop lib whitelist (items elements) []) (\<lambda>poisArray.
           let results = JObject
                 [(''count'', JInt (int (length poisArray))),
                  (''pois'', JArray poisArray)]
           in Inr (JObject
                 [(''query'', query),
                  (''results'', results),
                  (''schema_version'', JInt 1),
                  (''source'', source)])))"

text \<open>Reading the results block of a document back.\<close>

definition results_count :: "'d json \<Rightarrow> 'd json option" where
  "results_count doc = (case lookup doc ''results'' of
       Some results \<Rightarrow> lookup results ''count'' | None \<Rightarrow> None)"

definition results_pois :: "'d json \<Rightarrow> 'd json option" where
  "results_pois doc = (case lookup doc ''results'' of
       Some results \<Rightarrow> lookup results ''pois'' | None \<Rightarrow> None)"

subsection \<open>\<^verbatim>\<open>PoiOsmClient::queryOverpass_\<close>\<close>

text \<open>The \<^verbatim>\<open>try\<close> block, on the body the service returned.\<close>

definition overpass_try ::
  "'d stdlib \<Rightarrow> 'd \<Rightarrow> 'd \<Rightarrow> int \<Rightarrow> PoiWhitelistEntry list \<Rightarrow> 'd json \<Rightarrow> string
     \<Rightarrow> exn + 'd json expected" where
  "overpass_try lib lat lon radiusMeters whitelist queryInput response =
     seq (json_parse lib response) (\<lambda>json.
       if json_contains json ''remark'' \<and> \<not> json_contains json ''elements'' then
         seq (get_string (case lookup json ''remark'' of Some r \<Rightarrow> r | None \<Rightarrow> JNull))
           (\<lambda>remark. Inr (Unexpected (''Overpass API Error: '' @ remark)))
       else if \<not> is_object json \<or> \<not> json_contains json ''elements'' then
         (if found ''<html'' response then
            Inr (Unexpected ''Overpass API returned HTML error (server might be busy)'')
          else Inr (Unexpected ''Invalid Overpass JSON response''))
       else
         seq (buildResultJson lib lat lon radiusMeters whitelist
                (case lookup json ''elements'' of Some els \<Rightarrow> els | None \<Rightarrow> JNull) queryInput)
           (\<lambda>doc. Inr (Ok doc)))"

text \<open>
  The only handler is \<^verbatim>\<open>catch (const nlohmann::json::parse_error&)\<close>: every other
  exception leaves the function.
\<close>

definition queryOverpass ::
  "'d stdlib \<Rightarrow> 'd \<Rightarrow> 'd \<Rightarrow> int \<Rightarrow> PoiWhitelistEntry list \<Rightarrow> 'd json
     \<Rightarrow> exn + 'd json expected" where
  "queryOverpass lib lat lon radiusMeters whitelist queryInput =
     (let query = buildOverpassQuery lib lat lon radiusMeters whitelist;
          postData = ''data='' @ urlEncode lib query
      in case performRequest lib ''https://overpass-api.de/api/interpreter'' postData of
           Unexpected e \<Rightarrow> Inr (Unexpected e)
         | Ok response \<Rightarrow>
             (case overpass_try lib lat lon radiusMeters whitelist queryInput response of
                Inl (parse_error m) \<Rightarrow> Inr (Unexpected (''JSON parse error: '' @ m))
              | Inl e \<Rightarrow> Inl e
              | Inr r \<Rightarrow> Inr r))"

subsection \<open>\<^verbatim>\<open>PoiOsmClient::geocodeAddress_\<close>\<close>

text \<open>
  The two lines that read the first candidate: Nominatim gives \<open>lat\<close> and \<open>lon\<close> as
  strings, and a missing one is read as \<^verbatim>\<open>"0.0"\<close>.
\<close>

definition std_stod :: "'d stdlib \<Rightarrow> string \<Rightarrow> exn + 'd" where
  "std_stod lib s = (case stod lib s of Inl m \<Rightarrow> Inl (std_exception m) | Inr d \<Rightarrow> Inr d)"

definition candidate_coordinates :: "'d stdlib \<Rightarrow> 'd json \<Rightarrow> exn + 'd \<times> 'd" where
  "candidate_coordinates lib obj =
     seq (json_value get_string obj ''lat'' ''0.0'') (\<lambda>lat_text.
     seq (std_stod lib lat_text) (\<lambda>lat.
     seq (json_value get_string obj ''lon'' ''0.0'') (\<lambda>lon_text.
     seq (std_stod lib lon_text) (\<lambda>lon. Inr (lat, lon)))))"

text \<open>
  The \<^verbatim>\<open>try\<close> block. The three cases are \<^verbatim>\<open>!json.is_array()\<close>, \<^verbatim>\<open>json.empty()\<close>
  and \<^verbatim>\<open>json[0]\<close> on an array that is not empty.
\<close>

definition geocode_try :: "'d stdlib \<Rightarrow> string \<Rightarrow> exn + ('d \<times> 'd) expected" where
  "geocode_try lib response =
     seq (json_parse lib response) (\<lambda>json.
       case json of
         JArray [] \<Rightarrow> Inr (Unexpected ''No geocoding result for address'')
       | JArray (obj # _) \<Rightarrow>
           seq (candidate_coordinates lib obj) (\<lambda>(lat, lon).
             if eq_zero lib lat \<and> eq_zero lib lon then
               Inr (Unexpected ''Invalid coordinates in geocoding response'')
             else Inr (Ok (lat, lon)))
       | _ \<Rightarrow> Inr (Unexpected ''Invalid geocoding response: Not an array''))"

text \<open>
  The handlers, in the order of the source: \<^verbatim>\<open>parse_error\<close> first, then every other
  \<^verbatim>\<open>std::exception\<close>.
\<close>

definition geocodeAddress :: "'d stdlib \<Rightarrow> string \<Rightarrow> ('d \<times> 'd) expected" where
  "geocodeAddress lib address =
     (let encodedAddr = urlEncode lib address;
          url = ''https://nominatim.openstreetmap.org/search?q='' @ encodedAddr
                  @ ''&format=json&limit=1''
      in case performRequest lib url [] of
           Unexpected e \<Rightarrow> Unexpected e
         | Ok response \<Rightarrow>
             (case geocode_try lib response of
                Inl (parse_error m) \<Rightarrow> Unexpected (''JSON parse error: '' @ m)
              | Inl e \<Rightarrow> Unexpected (''Error parsing coordinates: '' @ what e)
              | Inr r \<Rightarrow> r))"

subsection \<open>\<^verbatim>\<open>queryByAddress\<close> and \<^verbatim>\<open>queryByCoordinates\<close>\<close>

definition queryByAddress ::
  "'d stdlib \<Rightarrow> string \<Rightarrow> int \<Rightarrow> PoiWhitelistEntry list \<Rightarrow> exn + 'd json expected" where
  "queryByAddress lib address radiusMeters whitelist =
     (case geocodeAddress lib address of
        Unexpected e \<Rightarrow> Inr (Unexpected e)
      | Ok (lat, lon) \<Rightarrow>
          queryOverpass lib lat lon radiusMeters whitelist
            (JObject [(''address'', JString address), (''lat'', JNull), (''lon'', JNull)]))"

definition queryByCoordinates ::
  "'d stdlib \<Rightarrow> 'd \<Rightarrow> 'd \<Rightarrow> int \<Rightarrow> PoiWhitelistEntry list \<Rightarrow> exn + 'd json expected" where
  "queryByCoordinates lib lat lon radiusMeters whitelist =
     queryOverpass lib lat lon radiusMeters whitelist
       (JObject [(''address'', JNull), (''lat'', JFloat lat), (''lon'', JFloat lon)])"

subsection \<open>The data model and the acceptance rule, in the words of the specification\<close>

text \<open>
  A raw element as the area search delivers it: an object whose \<open>type\<close>, when present,
  is a string, whose \<open>lat\<close> and \<open>lon\<close>, when present, are numbers, and whose \<open>tags\<close>,
  when present, map strings to strings.
\<close>

fun is_string :: "'d json \<Rightarrow> bool" where
  "is_string (JString _) = True"
| "is_string _ = False"

fun is_number :: "'d json \<Rightarrow> bool" where
  "is_number (JInt _) = True"
| "is_number (JFloat _) = True"
| "is_number _ = False"

fun is_string_map :: "'d json \<Rightarrow> bool" where
  "is_string_map (JObject kvs) = list_all (\<lambda>kv. is_string (snd kv)) kvs"
| "is_string_map _ = False"

definition field_is :: "('d json \<Rightarrow> bool) \<Rightarrow> 'd json \<Rightarrow> string \<Rightarrow> bool" where
  "field_is P e k = (case lookup e k of None \<Rightarrow> True | Some v \<Rightarrow> P v)"

definition raw_element :: "'d json \<Rightarrow> bool" where
  "raw_element e =
     (is_object e \<and> field_is is_string e ''type'' \<and> field_is is_number e ''lat''
      \<and> field_is is_number e ''lon'' \<and> field_is is_string_map e ''tags'')"

definition is_node :: "'d json \<Rightarrow> bool" where
  "is_node e = (lookup e ''type'' = Some (JString ''node''))"

definition element_tags :: "'d json \<Rightarrow> 'd json" where
  "element_tags e = (case lookup e ''tags'' of Some t \<Rightarrow> t | None \<Rightarrow> JObject [])"

text \<open>
  One whitelist entry matches: its key is present among the tags, and its value is empty
  or equal to the tag's value.
\<close>

definition entry_matches :: "'d json \<Rightarrow> PoiWhitelistEntry \<Rightarrow> bool" where
  "entry_matches tags w = (case lookup tags (w_key w) of
       None \<Rightarrow> False
     | Some v \<Rightarrow> w_value w = [] \<or> v = JString (w_value w))"

text \<open>Whitelist acceptance: an empty whitelist accepts, otherwise some entry matches.\<close>

definition spec_accepts :: "PoiWhitelistEntry list \<Rightarrow> 'd json \<Rightarrow> bool" where
  "spec_accepts whitelist tags = (whitelist = [] \<or> list_ex (entry_matches tags) whitelist)"

text \<open>The Poi of an element: coordinates (0.0 when missing), name or null, tags.\<close>

definition coordinate :: "'d stdlib \<Rightarrow> 'd json \<Rightarrow> string \<Rightarrow> 'd" where
  "coordinate lib e k = (case lookup e k of
       Some (JInt i) \<Rightarrow> double_of_int lib i
     | Some (JFloat d) \<Rightarrow> d
     | _ \<Rightarrow> d_zero lib)"

definition spec_poi :: "'d stdlib \<Rightarrow> 'd json \<Rightarrow> 'd json" where
  "spec_poi lib e =
     JObject
       [(''lat'', JFloat (coordinate lib e ''lat'')),
        (''lon'', JFloat (coordinate lib e ''lon'')),
        (''name'', (case lookup (element_tags e) ''name'' of Some n \<Rightarrow> n | None \<Rightarrow> JNull)),
        (''tags'', element_tags e)]"

subsection \<open>A library for the examples\<close>

text \<open>
  The examples below run the program with one concrete library, over the reals. It
  tabulates what the real library returns on the texts and numbers of the examples:
  the parser on nine response bodies that are JSON, \<^verbatim>\<open>std::stod\<close> on four
  numerals and \<^verbatim>\<open>std::format("{:.6f}", x)\<close> on three numbers. On every other text
  its parser reports the syntax error of the real parser at the first character, which
  is what the real one does on the one other body of the examples, an HTML page, and its
  \<open>stod\<close> reports a failed conversion, which is what the real one does on the one
  other text of the examples, a word. What its \<open>format_6f\<close> answers outside its table
  is never used. Every transfer ends with the code 200 and the body given as
  \<open>response\<close>, whatever the request, and nothing is escaped.
\<close>

definition sample_bodies :: "(string \<times> real json) list" where
  \<open>sample_bodies =
     [(''[{"lat":"48.137154","lon":"11.575382"}]'',
         JArray [JObject [(''lat'', JString ''48.137154''), (''lon'', JString ''11.575382'')]]),
      (''[{"lat":"0","lon":"0"}]'',
         JArray [JObject [(''lat'', JString ''0''), (''lon'', JString ''0'')]]),
      (''[{"lon":"11.575382"}]'', JArray [JObject [(''lon'', JString ''11.575382'')]]),
      (''[{"lat":"0"}]'', JArray [JObject [(''lat'', JString ''0'')]]),
      (''[{"lat":"north","lon":"11.575382"}]'',
         JArray [JObject [(''lat'', JString ''north''), (''lon'', JString ''11.575382'')]]),
      (''[{}]'', JArray [JObject []]),
      (''[]'', JArray []),
      (''{}'', JObject []),
      (''{"remark":"runtime error: Query timed out"}'',
         JObject [(''remark'', JString ''runtime error: Query timed out'')])]\<close>

definition sample_parse :: "string \<Rightarrow> exn + real json" where
  "sample_parse s = (case map_of sample_bodies s of
       Some j \<Rightarrow> Inr j
     | None \<Rightarrow> Inl (parse_error (''[json.exception.parse_error.101] parse error at line 1, ''
         @ ''column 1: syntax error while parsing value - invalid literal; last read: '' @ [CHR 0x27]
         @ take 1 s @ [CHR 0x27])))"

definition sample_stod :: "string \<Rightarrow> string + real" where
  "sample_stod s = (case map_of
       [(''0.0'', 0), (''0'', 0), (''48.137154'', 48.137154), (''11.575382'', 11.575382)] s of
       Some d \<Rightarrow> Inr d
     | None \<Rightarrow> Inl ''stod'')"

definition sample_format_6f :: "real \<Rightarrow> string" where
  "sample_format_6f x = (case map_of
       [(0, ''0.000000''), (48.137154, ''48.137154''), (11.575382, ''11.575382'')] x of
       Some s \<Rightarrow> s
     | None \<Rightarrow> [])"

definition sample_lib :: "string \<Rightarrow> real stdlib" where
  "sample_lib response =
     \<lparr> json_parse = sample_parse,
       stod = sample_stod,
       double_of_int = real_of_int,
       d_zero = 0,
       eq_zero = (\<lambda>x. x = 0),
       format_6f = sample_format_6f,
       curl_easy_escape = (\<lambda>s. Some s),
       curl_perform = (\<lambda>url postData. CurlResponse 200 response),
       current_iso_time = ''2026-02-15T12:00:00Z'' \<rparr>"

text \<open>A whitelist and the elements of an area-search response, for the examples.\<close>

definition sample_whitelist :: "PoiWhitelistEntry list" where
  "sample_whitelist =
     [\<lparr>w_key = ''amenity'', w_value = []\<rparr>, \<lparr>w_key = ''shop'', w_value = ''bakery''\<rparr>]"

definition sample_elements :: "real json list" where
  "sample_elements =
     [JObject [(''type'', JString ''node''), (''lat'', JFloat 48.137154), (''lon'', JInt 11),
        (''tags'', JObject [(''amenity'', JString ''cafe''), (''name'', JString ''Luitpold'')])],
      JObject [(''type'', JString ''way''), (''tags'', JObject [(''amenity'', JString ''cafe'')])],
      JObject [(''type'', JString ''node''), (''lat'', JFloat 48.137154),
        (''lon'', JFloat 11.575382), (''tags'', JObject [(''shop'', JString ''butcher'')])],
      JObject [(''type'', JString ''node''), (''tags'', JObject [(''shop'', JString ''bakery'')])],
      JObject [(''type'', JString ''node'')]]"

lemmas sample_defs = sample_elements_def sample_whitelist_def raw_element_def field_is_def
  is_node_def spec_accepts_def entry_matches_def element_tags_def spec_poi_def coordinate_def
  sample_lib_def

section \<open>Properties\<close>

subsection \<open>Sequencing and the JSON API\<close>

lemma seq_Inr_iff: "seq m f = Inr y \<longleftrightarrow> (\<exists>x. m = Inr x \<and> f x = Inr y)"
  by (cases m) (simp_all add: seq_def)

lemma seq_Inr [simp]: "seq (Inr x) f = f x"
  by (simp add: seq_def)

lemma seq_Inl [simp]: "seq (Inl e) f = Inl e"
  by (simp add: seq_def)

lemma get_string_Inr_iff: "get_string v = Inr s \<longleftrightarrow> v = JString s"
  by (cases v) (simp_all add: get_string_def)

subsection \<open>The normaliser computes the acceptance rule\<close>

lemma whitelist_loop_sound:
  "whitelist_loop wl tags = Inr b \<Longrightarrow> b = list_ex (entry_matches tags) wl"
proof (induction wl)
  case Nil
  then show ?case by simp
next
  case (Cons w ws)
  show ?case
  proof (cases "lookup tags (w_key w)")
    case None
    with Cons show ?thesis by (simp add: entry_matches_def)
  next
    case (Some v)
    with Cons.prems obtain val where v: "v = JString val"
      and rest: "(if w_value w = [] \<or> val = w_value w then Inr True else whitelist_loop ws tags) = Inr b"
      by (auto simp: seq_Inr_iff get_string_Inr_iff)
    have em: "entry_matches tags w = (w_value w = [] \<or> val = w_value w)"
      using Some v by (simp add: entry_matches_def)
    show ?thesis
    proof (cases "w_value w = [] \<or> val = w_value w")
      case True
      with rest em show ?thesis by auto
    next
      case False
      with rest have "whitelist_loop ws tags = Inr b" by simp
      with Cons.IH have "b = list_ex (entry_matches tags) ws" by simp
      with False em show ?thesis by simp
    qed
  qed
qed

lemma string_map_lookup:
  "is_string_map tags \<Longrightarrow> lookup tags k = Some v \<Longrightarrow> \<exists>s. v = JString s"
proof (cases tags)
  case (JObject kvs)
  assume "is_string_map tags" "lookup tags k = Some v"
  with JObject have "(k, v) \<in> set kvs" "\<forall>kv\<in>set kvs. is_string (snd kv)"
    by (auto simp: list_all_iff dest: map_of_SomeD)
  then have "is_string v" by auto
  then show ?thesis by (cases v) simp_all
qed simp_all

lemma whitelist_loop_total:
  "is_string_map tags \<Longrightarrow> \<exists>b. whitelist_loop wl tags = Inr b"
proof (induction wl)
  case Nil
  show ?case by (rule exI[of _ False]) simp
next
  case (Cons w ws)
  show ?case
  proof (cases "lookup tags (w_key w)")
    case None
    with Cons show ?thesis by simp
  next
    case (Some v)
    with Cons.prems obtain s where "v = JString s" by (blast dest: string_map_lookup)
    with Some Cons show ?thesis by (auto simp: get_string_def)
  qed
qed

lemma json_value_Inr_iff:
  "json_value conv e k d = Inr x \<longleftrightarrow>
     is_object e \<and> (case lookup e k of None \<Rightarrow> x = d | Some v \<Rightarrow> conv v = Inr x)"
  by (cases e) (auto simp: json_value_def split: option.splits)

lemma type_is_node:
  "json_value get_string e ''type'' [] = Inr ty \<Longrightarrow> ty = ''node'' \<longleftrightarrow> is_node e"
  by (auto simp: json_value_Inr_iff is_node_def get_string_Inr_iff split: option.splits)

lemma coordinate_sound:
  "json_value (get_double lib) e k (d_zero lib) = Inr x \<Longrightarrow> x = coordinate lib e k"
  by (auto simp: json_value_Inr_iff coordinate_def get_double_def split: option.splits json.splits)

lemma tags_sound:
  "json_value Inr e ''tags'' (JObject []) = Inr tags \<Longrightarrow> tags = element_tags e"
  by (auto simp: json_value_Inr_iff element_tags_def split: option.splits)

lemma accepted_sound:
  "(if wl = [] then Inr True else whitelist_loop wl tags) = Inr b \<Longrightarrow> b = spec_accepts wl tags"
  by (auto simp: spec_accepts_def dest: whitelist_loop_sound split: if_splits)

lemma poi_of_element_sound:
  assumes "poi_of_element lib wl e = Inr r"
  shows "r = (if is_node e \<and> spec_accepts wl (element_tags e) then Some (spec_poi lib e) else None)"
proof -
  from assms obtain ty where ty: "json_value get_string e ''type'' [] = Inr ty"
    by (auto simp: poi_of_element_def seq_Inr_iff)
  show ?thesis
  proof (cases "ty = ''node''")
    case False
    with assms ty type_is_node[OF ty] show ?thesis by (simp add: poi_of_element_def)
  next
    case True
    with type_is_node[OF ty] have node: "is_node e" by simp
    from assms ty True obtain lat lon tags accepted where
      lat: "json_value (get_double lib) e ''lat'' (d_zero lib) = Inr lat" and
      lon: "json_value (get_double lib) e ''lon'' (d_zero lib) = Inr lon" and
      tags: "json_value Inr e ''tags'' (JObject []) = Inr tags" and
      acc: "(if wl = [] then Inr True else whitelist_loop wl tags) = Inr accepted" and
      r: "r = (if \<not> accepted then None else Some (JObject
             [(''lat'', JFloat lat), (''lon'', JFloat lon),
              (''name'', (case lookup tags ''name'' of Some n \<Rightarrow> n | None \<Rightarrow> JNull)),
              (''tags'', tags)]))"
      by (auto simp: poi_of_element_def seq_Inr_iff split: if_splits)
    from coordinate_sound[OF lat] coordinate_sound[OF lon] tags_sound[OF tags] accepted_sound[OF acc]
    show ?thesis using node r by (simp add: spec_poi_def)
  qed
qed

lemma poi_of_element_total:
  assumes "raw_element e"
  shows "\<exists>r. poi_of_element lib wl e = Inr r"
proof -
  from assms obtain kvs where e: "e = JObject kvs" by (cases e) (simp_all add: raw_element_def)
  from assms e obtain ty where ty: "json_value get_string e ''type'' [] = Inr ty"
    by (cases "map_of kvs ''type''"; cases "the (map_of kvs ''type'')")
       (auto simp: raw_element_def field_is_def json_value_def get_string_def)
  from assms e obtain lat where lat: "json_value (get_double lib) e ''lat'' (d_zero lib) = Inr lat"
    by (cases "map_of kvs ''lat''"; cases "the (map_of kvs ''lat'')")
       (auto simp: raw_element_def field_is_def json_value_def get_double_def)
  from assms e obtain lon where lon: "json_value (get_double lib) e ''lon'' (d_zero lib) = Inr lon"
    by (cases "map_of kvs ''lon''"; cases "the (map_of kvs ''lon'')")
       (auto simp: raw_element_def field_is_def json_value_def get_double_def)
  have tags: "json_value Inr e ''tags'' (JObject []) = Inr (element_tags e)"
    using e by (simp add: json_value_def element_tags_def split: option.splits)
  have "is_string_map (element_tags e)"
    using assms e by (auto simp: raw_element_def field_is_def element_tags_def split: option.splits)
  then obtain b where b: "whitelist_loop wl (element_tags e) = Inr b"
    using whitelist_loop_total by blast
  show ?thesis
    by (simp add: poi_of_element_def ty lat lon tags b)
qed

lemma pois_loop_sound:
  "pois_loop lib wl es acc = Inr ps \<Longrightarrow>
     ps = acc @ map (spec_poi lib) (filter (\<lambda>e. is_node e \<and> spec_accepts wl (element_tags e)) es)"
proof (induction es arbitrary: acc)
  case Nil
  then show ?case by simp
next
  case (Cons e es)
  from Cons.prems obtain r where r: "poi_of_element lib wl e = Inr r"
    and rest: "(case r of None \<Rightarrow> pois_loop lib wl es acc
                | Some poi \<Rightarrow> pois_loop lib wl es (acc @ [poi])) = Inr ps"
    by (auto simp: seq_Inr_iff)
  note s = poi_of_element_sound[OF r]
  show ?case
  proof (cases "is_node e \<and> spec_accepts wl (element_tags e)")
    case True
    with s rest have "pois_loop lib wl es (acc @ [spec_poi lib e]) = Inr ps" by simp
    from Cons.IH[OF this] True show ?thesis by simp
  next
    case False
    with s rest have "pois_loop lib wl es acc = Inr ps" by simp
    from Cons.IH[OF this] False show ?thesis by simp
  qed
qed

lemma pois_loop_total:
  "list_all raw_element es \<Longrightarrow> \<exists>ps. pois_loop lib wl es acc = Inr ps"
proof (induction es arbitrary: acc)
  case Nil
  then show ?case by simp
next
  case (Cons e es)
  then obtain r where r: "poi_of_element lib wl e = Inr r"
    using poi_of_element_total by fastforce
  from Cons show ?case by (cases r) (simp_all add: r)
qed

lemma buildResultJson_Inr:
  "buildResultJson lib clat clon radius wl elements qi = Inr doc \<Longrightarrow>
     \<exists>ps. pois_loop lib wl (items elements) [] = Inr ps
        \<and> results_pois doc = Some (JArray ps)
        \<and> results_count doc = Some (JInt (int (length ps)))"
  by (auto simp: buildResultJson_def Let_def seq_Inr_iff results_pois_def results_count_def)

lemma buildResultJson_total:
  "pois_loop lib wl (items elements) [] = Inr ps \<Longrightarrow>
     \<exists>doc. buildResultJson lib clat clon radius wl elements qi = Inr doc"
  by (simp add: buildResultJson_def Let_def)

lemma spec_poi_tags: "lookup (spec_poi lib e) ''tags'' = Some (element_tags e)"
  by (simp add: spec_poi_def)

lemma accepted_has_tags:
  assumes "wl \<noteq> []" "spec_accepts wl (element_tags e)"
  shows "lookup e ''tags'' = Some (element_tags e)"
proof (cases "lookup e ''tags''")
  case None
  then have "element_tags e = JObject []" by (simp add: element_tags_def)
  then have "\<not> entry_matches (element_tags e) w" for w by (simp add: entry_matches_def)
  then have "\<not> list_ex (entry_matches (element_tags e)) wl" by (simp add: list_ex_iff)
  with assms show ?thesis by (simp add: spec_accepts_def)
next
  case (Some t)
  then show ?thesis by (simp add: element_tags_def)
qed

subsection \<open>The query builder\<close>

lemma digit_char_digit: "d < 10 \<Longrightarrow> digit_char d \<in> set ''0123456789''"
  using nth_mem[of d "''0123456789''"] by (simp add: digit_char_def)

lemma show_nat_digits: "set (show_nat n) \<subseteq> set ''0123456789''"
proof (induction n rule: show_nat.induct)
  case (1 n)
  show ?case
  proof (cases "n < 10")
    case True
    with digit_char_digit[of n] show ?thesis by (simp add: show_nat.simps[of n])
  next
    case False
    with "1" digit_char_digit[of "n mod 10"] show ?thesis
      by (simp add: show_nat.simps[of n])
  qed
qed

lemma query_loop_concat:
  "query_loop center ws query = query @ concat (map (node_filter center) ws)"
  by (induction ws arbitrary: query) simp_all

lemma node_filter_shape:
  "node_filter c = (\<lambda>w. ''node('' @ c @ '')['' @ dquote @ w_key w @ dquote
       @ (if w_value w = [] then [] else ''='' @ dquote @ w_value w @ dquote) @ ''];'')"
  by (rule ext) (simp add: node_filter_def)

text \<open>
  The query as one concatenation: the text of the empty whitelist, and otherwise the
  texts the entries append, in their order. How the service reads the result depends
  on the characters of the keys and values, which are written into it as they are.
\<close>

lemma query_closed_form:
  "buildOverpassQuery lib lat lon radiusMeters [] =
      ''[out:json][timeout:25];('' @ ''node('' @ around_center lib radiusMeters lat lon @ '');''
        @ '');out center;''
   \<and> (whitelist \<noteq> [] \<longrightarrow>
        buildOverpassQuery lib lat lon radiusMeters whitelist =
          ''[out:json][timeout:25];(''
          @ concat (map (\<lambda>w. ''node('' @ around_center lib radiusMeters lat lon @ '')[''
               @ dquote @ w_key w @ dquote
               @ (if w_value w = [] then [] else ''='' @ dquote @ w_value w @ dquote)
               @ ''];'') whitelist)
          @ '');out center;'')"
  by (simp add: buildOverpassQuery_def query_loop_concat node_filter_shape)

subsection \<open>The locator\<close>

lemma json_value_missing:
  "is_object c \<Longrightarrow> lookup c k = None \<Longrightarrow> json_value conv c k d = Inr d"
  by (cases c) (simp_all add: json_value_def)

lemma json_value_not_parse_error:
  "json_value get_string c k d \<noteq> Inl (parse_error m)"
  by (cases c; cases "lookup c k"; cases "the (lookup c k)")
     (simp_all add: json_value_def get_string_def)

lemma std_stod_not_parse_error: "std_stod lib s \<noteq> Inl (parse_error m)"
  by (simp add: std_stod_def split: sum.splits)

lemma seq_Inl_iff:
  "seq m f = Inl e \<longleftrightarrow> m = Inl e \<or> (\<exists>x. m = Inr x \<and> f x = Inl e)"
  by (cases m) simp_all

lemma candidate_coordinates_not_parse_error:
  "candidate_coordinates lib c \<noteq> Inl (parse_error m)"
  by (auto simp: candidate_coordinates_def seq_Inl_iff json_value_not_parse_error
      std_stod_not_parse_error)

lemma geocodeAddress_on_body:
  assumes "performRequest lib (''https://nominatim.openstreetmap.org/search?q=''
             @ urlEncode lib address @ ''&format=json&limit=1'') [] = Ok body"
  shows "geocodeAddress lib address =
     (case geocode_try lib body of
        Inl (parse_error m) \<Rightarrow> Unexpected (''JSON parse error: '' @ m)
      | Inl e \<Rightarrow> Unexpected (''Error parsing coordinates: '' @ what e)
      | Inr r \<Rightarrow> r)"
  using assms by (simp add: geocodeAddress_def Let_def)

lemma geocode_try_candidate:
  assumes "json_parse lib body = Inr (JArray (c # cs))"
  shows "geocode_try lib body =
     seq (candidate_coordinates lib c) (\<lambda>(lat, lon).
       if eq_zero lib lat \<and> eq_zero lib lon then
         Inr (Unexpected ''Invalid coordinates in geocoding response'')
       else Inr (Ok (lat, lon)))"
  using assms by (simp add: geocode_try_def)

lemma candidate_coordinates_cases:
  assumes "is_object c"
  shows "candidate_coordinates lib c =
     seq (case lookup c ''lat'' of None \<Rightarrow> Inr ''0.0'' | Some v \<Rightarrow> get_string v) (\<lambda>lat_text.
     seq (std_stod lib lat_text) (\<lambda>lat.
     seq (case lookup c ''lon'' of None \<Rightarrow> Inr ''0.0'' | Some v \<Rightarrow> get_string v) (\<lambda>lon_text.
     seq (std_stod lib lon_text) (\<lambda>lon. Inr (lat, lon)))))"
  using assms by (cases c) (simp_all add: candidate_coordinates_def json_value_def)

subsection \<open>The orchestrator\<close>

lemma queryOverpass_on_body:
  assumes "performRequest lib ''https://overpass-api.de/api/interpreter''
             (''data='' @ urlEncode lib (buildOverpassQuery lib lat lon radius wl)) = Ok body"
  shows "queryOverpass lib lat lon radius wl qi =
     (case overpass_try lib lat lon radius wl qi body of
        Inl (parse_error m) \<Rightarrow> Inr (Unexpected (''JSON parse error: '' @ m))
      | Inl e \<Rightarrow> Inl e
      | Inr r \<Rightarrow> Inr r)"
  using assms by (simp add: queryOverpass_def Let_def)

lemma overpass_remark:
  assumes "performRequest lib ''https://overpass-api.de/api/interpreter''
             (''data='' @ urlEncode lib (buildOverpassQuery lib lat lon radius wl)) = Ok body"
    and "json_parse lib body = Inr j"
    and "lookup j ''remark'' = Some (JString remark)" and "lookup j ''elements'' = None"
  shows "queryOverpass lib lat lon radius wl qi
           = Inr (Unexpected (''Overpass API Error: '' @ remark))"
  using assms(2-)
  by (simp add: queryOverpass_on_body[OF assms(1)] overpass_try_def json_contains_def
      get_string_def)

lemma overpass_no_elements:
  assumes "performRequest lib ''https://overpass-api.de/api/interpreter''
             (''data='' @ urlEncode lib (buildOverpassQuery lib lat lon radius wl)) = Ok body"
    and "json_parse lib body = Inr j"
    and "lookup j ''remark'' = None" and "lookup j ''elements'' = None"
  shows "queryOverpass lib lat lon radius wl qi =
           Inr (Unexpected (if found ''<html'' body
              then ''Overpass API returned HTML error (server might be busy)''
              else ''Invalid Overpass JSON response''))"
  using assms(2-)
  by (simp add: queryOverpass_on_body[OF assms(1)] overpass_try_def json_contains_def)

subsection \<open>The library of the examples\<close>

lemma sample_request [simp]: "performRequest (sample_lib body) url post = Ok body"
  by (simp add: sample_lib_def performRequest_def)

lemma sample_json_parse [simp]: "json_parse (sample_lib body) = sample_parse"
  by (simp add: sample_lib_def)

lemma sample_stod_lib [simp]: "stod (sample_lib body) = sample_stod"
  by (simp add: sample_lib_def)

lemma sample_eq_zero [simp]: "eq_zero (sample_lib body) x = (x = 0)"
  by (simp add: sample_lib_def)

subsection \<open>The orchestrator on the soft errors of the area search\<close>

lemma remark_example:
  \<open>queryOverpass (sample_lib ''{"remark":"runtime error: Query timed out"}'')
      48.137154 11.575382 1000 sample_whitelist JNull
     = Inr (Unexpected ''Overpass API Error: runtime error: Query timed out'')\<close>
  by (simp add: queryOverpass_on_body[OF sample_request] overpass_try_def sample_parse_def
      sample_bodies_def json_contains_def get_string_def)

lemma no_elements_example:
  \<open>queryOverpass (sample_lib ''{}'') 48.137154 11.575382 1000 sample_whitelist JNull
     = Inr (Unexpected ''Invalid Overpass JSON response'')\<close>
  by (simp add: queryOverpass_on_body[OF sample_request] overpass_try_def sample_parse_def
      sample_bodies_def json_contains_def)

section \<open>The claims\<close>

text \<open>
  C1. An element contributes a Poi to \<open>results.pois\<close> if and only if its \<open>type\<close> is
  exactly \<open>node\<close> and it passes whitelist acceptance (every node with an empty
  whitelist; otherwise some entry whose key is among the tags and whose value is empty or
  equal to the tag's value): whenever the normaliser returns a document, its \<open>pois\<close>
  are the Pois of exactly those elements, in their order, and it returns a document on
  every sequence of raw elements.
\<close>

theorem pois_iff_node_and_accepted:
  "(\<forall>doc. buildResultJson lib clat clon radius wl elements qi = Inr doc \<longrightarrow>
       results_pois doc = Some (JArray (map (spec_poi lib)
         (filter (\<lambda>e. is_node e \<and> spec_accepts wl (element_tags e)) (items elements)))))
   \<and> (list_all raw_element (items elements) \<longrightarrow>
        (\<exists>doc. buildResultJson lib clat clon radius wl elements qi = Inr doc))"
proof (intro conjI allI impI)
  fix doc
  assume "buildResultJson lib clat clon radius wl elements qi = Inr doc"
  from buildResultJson_Inr[OF this] obtain ps where
    "pois_loop lib wl (items elements) [] = Inr ps" "results_pois doc = Some (JArray ps)"
    by blast
  with pois_loop_sound[of lib wl "items elements" "[]" ps]
  show "results_pois doc = Some (JArray (map (spec_poi lib)
         (filter (\<lambda>e. is_node e \<and> spec_accepts wl (element_tags e)) (items elements))))"
    by simp
next
  assume "list_all raw_element (items elements)"
  then obtain ps where "pois_loop lib wl (items elements) [] = Inr ps"
    using pois_loop_total by blast
  then show "\<exists>doc. buildResultJson lib clat clon radius wl elements qi = Inr doc"
    by (rule buildResultJson_total)
qed

theorem pois_iff_node_and_accepted_witness:
  "list_all raw_element sample_elements \<and>
   (\<exists>doc. buildResultJson (sample_lib []) 48.137154 11.575382 1000 sample_whitelist
            (JArray sample_elements) JNull = Inr doc
      \<and> results_pois doc = Some (JArray
          [JObject [(''lat'', JFloat 48.137154), (''lon'', JFloat 11),
             (''name'', JString ''Luitpold''),
             (''tags'', JObject [(''amenity'', JString ''cafe''), (''name'', JString ''Luitpold'')])],
           JObject [(''lat'', JFloat 0), (''lon'', JFloat 0), (''name'', JNull),
             (''tags'', JObject [(''shop'', JString ''bakery'')])]]))"
proof -
  have raw: "list_all raw_element (items (JArray sample_elements))"
    by (simp add: sample_defs)
  note t = pois_iff_node_and_accepted[of "sample_lib []" "48.137154" "11.575382" 1000
      sample_whitelist "JArray sample_elements" JNull]
  from t raw obtain doc where doc: "buildResultJson (sample_lib []) 48.137154 11.575382 1000
      sample_whitelist (JArray sample_elements) JNull = Inr doc"
    by blast
  with t have "results_pois doc = Some (JArray (map (spec_poi (sample_lib []))
         (filter (\<lambda>e. is_node e \<and> spec_accepts sample_whitelist (element_tags e))
            (items (JArray sample_elements)))))"
    by blast
  then have "results_pois doc = Some (JArray
          [JObject [(''lat'', JFloat 48.137154), (''lon'', JFloat 11),
             (''name'', JString ''Luitpold''),
             (''tags'', JObject [(''amenity'', JString ''cafe''), (''name'', JString ''Luitpold'')])],
           JObject [(''lat'', JFloat 0), (''lon'', JFloat 0), (''name'', JNull),
             (''tags'', JObject [(''shop'', JString ''bakery'')])]])"
    by (simp add: sample_defs)
  with doc raw show ?thesis by simp
qed

text \<open>
  C2. A whitelist entry whose key or value contains a quote character is either escaped
  or rejected by the query builder. The builder does neither: it has no failure path,
  and at the entry \<open>name\<close> = \<open>Joe"s\<close> it writes the quote of the value into the query
  as it is, between the quotes that delimit the value.
\<close>

theorem quote_in_value_not_escaped:
  \<open>buildOverpassQuery lib lat lon 1000 [\<lparr>w_key = ''name'', w_value = ''Joe"s''\<rparr>] =
     ''[out:json][timeout:25];(node(around:1000,'' @ format_6f lib lat @ '','' @ format_6f lib lon
     @ '')["name"="Joe"s"];);out center;''\<close>
  by (simp add: buildOverpassQuery_def around_center_def node_filter_def show_int_def
      show_nat.simps digit_char_def)

theorem quote_in_value_not_escaped_witness:
  \<open>buildOverpassQuery (sample_lib []) 48.137154 11.575382 1000
       [\<lparr>w_key = ''name'', w_value = ''Joe"s''\<rparr>] =
     ''[out:json][timeout:25];(node(around:1000,48.137154,11.575382)["name"="Joe"s"];);out center;''\<close>
  using quote_in_value_not_escaped[of "sample_lib []" "48.137154" "11.575382"]
  by (simp add: sample_lib_def sample_format_6f_def)

text \<open>
  C3. With a whitelist that is not empty the query holds exactly one node clause for
  each entry, each selecting by that single key alone, so that the entries are OR'd and
  never AND'd. It does not for every whitelist: the one entry with the key
  \<open>amenity"]["shop\<close> gives one node statement with two filters, which the service
  AND's, and one entry whose value holds the text of a clause gives the very query of
  two entries.
\<close>

theorem quote_in_key_merges_filters:
  \<open>buildOverpassQuery (sample_lib []) 48.137154 11.575382 1000
       [\<lparr>w_key = ''amenity"]["shop'', w_value = []\<rparr>] =
     ''[out:json][timeout:25];(node(around:1000,48.137154,11.575382)["amenity"]["shop"];''
     @ '');out center;''
   \<and> buildOverpassQuery (sample_lib []) 48.137154 11.575382 1000
       [\<lparr>w_key = ''a'', w_value = ''b"];node(around:1000,48.137154,11.575382)["c''\<rparr>] =
     buildOverpassQuery (sample_lib []) 48.137154 11.575382 1000
       [\<lparr>w_key = ''a'', w_value = ''b''\<rparr>, \<lparr>w_key = ''c'', w_value = []\<rparr>]
   \<and> length [\<lparr>w_key = ''a'', w_value = ''b"];node(around:1000,48.137154,11.575382)["c''\<rparr>]
     < length [\<lparr>w_key = ''a'', w_value = ''b''\<rparr>, \<lparr>w_key = ''c'', w_value = []\<rparr>]\<close>
  by (simp add: buildOverpassQuery_def around_center_def node_filter_def show_int_def
      show_nat.simps digit_char_def sample_lib_def sample_format_6f_def)

text \<open>
  C4. In every document the normaliser constructs, \<open>results.count\<close> is the length of
  \<open>results.pois\<close>; on the empty sequence it constructs the document with count 0 and
  no Poi, and it constructs a document on every sequence of raw elements.
\<close>

theorem results_count_is_length:
  "(\<forall>doc. buildResultJson lib clat clon radius wl elements qi = Inr doc \<longrightarrow>
       (\<exists>pois. results_pois doc = Some (JArray pois)
           \<and> results_count doc = Some (JInt (int (length pois)))))
   \<and> (\<exists>doc. buildResultJson lib clat clon radius wl (JArray []) qi = Inr doc
           \<and> results_pois doc = Some (JArray []) \<and> results_count doc = Some (JInt 0))
   \<and> (list_all raw_element (items elements) \<longrightarrow>
        (\<exists>doc. buildResultJson lib clat clon radius wl elements qi = Inr doc))"
proof (intro conjI allI impI)
  fix doc
  assume "buildResultJson lib clat clon radius wl elements qi = Inr doc"
  from buildResultJson_Inr[OF this]
  show "\<exists>pois. results_pois doc = Some (JArray pois)
           \<and> results_count doc = Some (JInt (int (length pois)))"
    by blast
next
  show "\<exists>doc. buildResultJson lib clat clon radius wl (JArray []) qi = Inr doc
           \<and> results_pois doc = Some (JArray []) \<and> results_count doc = Some (JInt 0)"
    by (simp add: buildResultJson_def Let_def results_pois_def results_count_def)
next
  assume "list_all raw_element (items elements)"
  then obtain ps where "pois_loop lib wl (items elements) [] = Inr ps"
    using pois_loop_total by blast
  then show "\<exists>doc. buildResultJson lib clat clon radius wl elements qi = Inr doc"
    by (rule buildResultJson_total)
qed

theorem results_count_is_length_witness:
  "\<exists>doc. buildResultJson (sample_lib []) 48.137154 11.575382 1000 sample_whitelist
            (JArray sample_elements) JNull = Inr doc
      \<and> results_count doc = Some (JInt 2)
      \<and> (\<exists>pois. results_pois doc = Some (JArray pois) \<and> length pois = 2)"
proof -
  have raw: "list_all raw_element (items (JArray sample_elements))"
    by (simp add: sample_defs)
  note t = results_count_is_length[of "sample_lib []" "48.137154" "11.575382" 1000
      sample_whitelist "JArray sample_elements" JNull]
  from t raw obtain doc where doc: "buildResultJson (sample_lib []) 48.137154 11.575382 1000
      sample_whitelist (JArray sample_elements) JNull = Inr doc"
    by blast
  with t obtain pois where pois: "results_pois doc = Some (JArray pois)"
      "results_count doc = Some (JInt (int (length pois)))"
    by blast
  from doc have "results_count doc = Some (JInt 2)"
    by (auto simp: buildResultJson_def Let_def sample_defs poi_of_element_def json_value_def
        get_string_def get_double_def results_count_def)
  with pois have "length pois = 2" by simp
  with doc pois show ?thesis by auto
qed

text \<open>
  C5. A response without an \<open>elements\<close> field whose body contains markup yields the
  error of the overloaded server. The test for markup comes after the parser: a body
  that contains \<^verbatim>\<open><html\<close> and that the parser rejects, as it rejects every HTML
  page, yields the JSON parse error, and not the error of the overloaded server.
\<close>

theorem markup_body_reported_as_parse_error:
  assumes "performRequest lib ''https://overpass-api.de/api/interpreter''
             (''data='' @ urlEncode lib (buildOverpassQuery lib lat lon radius wl)) = Ok body"
    and "found ''<html'' body"
    and "json_parse lib body = Inl (parse_error m)"
  shows "queryOverpass lib lat lon radius wl qi = Inr (Unexpected (''JSON parse error: '' @ m))
       \<and> queryOverpass lib lat lon radius wl qi
           \<noteq> Inr (Unexpected ''Overpass API returned HTML error (server might be busy)'')"
  using assms(3) by (simp add: queryOverpass_on_body[OF assms(1)] overpass_try_def)

theorem markup_body_reported_as_parse_error_witness:
  \<open>found ''<html''
     ''<html><body>The server is probably too busy to handle your request.</body></html>''
   \<and> queryOverpass
        (sample_lib
           ''<html><body>The server is probably too busy to handle your request.</body></html>'')
        48.137154 11.575382 1000 sample_whitelist JNull
     = Inr (Unexpected (''JSON parse error: [json.exception.parse_error.101] parse error at ''
         @ ''line 1, column 1: syntax error while parsing value - invalid literal; last read: ''
         @ [CHR 0x27] @ ''<'' @ [CHR 0x27]))\<close>
proof -
  have f: \<open>found ''<html''
      ''<html><body>The server is probably too busy to handle your request.</body></html>''\<close>
    by simp
  have p: \<open>json_parse (sample_lib b)
      ''<html><body>The server is probably too busy to handle your request.</body></html>''
     = Inl (parse_error (''[json.exception.parse_error.101] parse error at ''
         @ ''line 1, column 1: syntax error while parsing value - invalid literal; last read: ''
         @ [CHR 0x27] @ ''<'' @ [CHR 0x27]))\<close> for b
    by (simp add: sample_parse_def sample_bodies_def)
  from markup_body_reported_as_parse_error[OF sample_request f p,
      of "48.137154" "11.575382" 1000 sample_whitelist JNull] f
  show ?thesis by simp
qed

text \<open>
  C6. On a body the transport delivered, the locator ends in one of these ways: the
  JSON parse error when the body is not JSON; an error of its own when the body is not
  an array, when the array is empty, when the coordinates of the first candidate cannot
  be read or parsed, and when both parse to zero; the parsed pair otherwise. The error
  messages are pairwise distinct. With both fields strings, the coordinates are what
  \<^verbatim>\<open>std::stod\<close> makes of them, read in the order \<open>lat\<close>, \<open>lon\<close>.
\<close>

theorem geocode_outcomes:
  assumes req: "performRequest lib (''https://nominatim.openstreetmap.org/search?q=''
             @ urlEncode lib address @ ''&format=json&limit=1'') [] = Ok body"
  shows "(\<forall>m. json_parse lib body = Inl (parse_error m) \<longrightarrow>
            geocodeAddress lib address = Unexpected (''JSON parse error: '' @ m))
       \<and> (\<forall>j. json_parse lib body = Inr j \<and> \<not> is_array j \<longrightarrow>
            geocodeAddress lib address = Unexpected ''Invalid geocoding response: Not an array'')
       \<and> (json_parse lib body = Inr (JArray []) \<longrightarrow>
            geocodeAddress lib address = Unexpected ''No geocoding result for address'')
       \<and> (\<forall>c cs e. json_parse lib body = Inr (JArray (c # cs))
              \<and> candidate_coordinates lib c = Inl e \<longrightarrow>
            geocodeAddress lib address = Unexpected (''Error parsing coordinates: '' @ what e))
       \<and> (\<forall>c cs lat lon. json_parse lib body = Inr (JArray (c # cs))
              \<and> candidate_coordinates lib c = Inr (lat, lon)
              \<and> eq_zero lib lat \<and> eq_zero lib lon \<longrightarrow>
            geocodeAddress lib address = Unexpected ''Invalid coordinates in geocoding response'')
       \<and> (\<forall>c cs lat lon. json_parse lib body = Inr (JArray (c # cs))
              \<and> candidate_coordinates lib c = Inr (lat, lon)
              \<and> \<not> (eq_zero lib lat \<and> eq_zero lib lon) \<longrightarrow>
            geocodeAddress lib address = Ok (lat, lon))
       \<and> (\<forall>c s t. lookup c ''lat'' = Some (JString s) \<and> lookup c ''lon'' = Some (JString t) \<longrightarrow>
            candidate_coordinates lib c =
              (case stod lib s of
                 Inl m \<Rightarrow> Inl (std_exception m)
               | Inr lat \<Rightarrow> (case stod lib t of
                     Inl m \<Rightarrow> Inl (std_exception m)
                   | Inr lon \<Rightarrow> Inr (lat, lon))))
       \<and> (\<forall>m n. distinct [''JSON parse error: '' @ n,
              ''Invalid geocoding response: Not an array'',
              ''No geocoding result for address'', ''Error parsing coordinates: '' @ m,
              ''Invalid coordinates in geocoding response''])"
proof (intro conjI allI impI)
  fix m assume "json_parse lib body = Inl (parse_error m)"
  then show "geocodeAddress lib address = Unexpected (''JSON parse error: '' @ m)"
    by (simp add: geocodeAddress_on_body[OF req] geocode_try_def)
next
  fix j assume "json_parse lib body = Inr j \<and> \<not> is_array j"
  then show "geocodeAddress lib address = Unexpected ''Invalid geocoding response: Not an array''"
    by (cases j) (simp_all add: geocodeAddress_on_body[OF req] geocode_try_def)
next
  assume "json_parse lib body = Inr (JArray [])"
  then show "geocodeAddress lib address = Unexpected ''No geocoding result for address''"
    by (simp add: geocodeAddress_on_body[OF req] geocode_try_def)
next
  fix c cs e
  assume a: "json_parse lib body = Inr (JArray (c # cs)) \<and> candidate_coordinates lib c = Inl e"
  then have "geocode_try lib body = Inl e" by (simp add: geocode_try_candidate)
  moreover from a have "\<nexists>m. e = parse_error m"
    using candidate_coordinates_not_parse_error by metis
  ultimately show "geocodeAddress lib address = Unexpected (''Error parsing coordinates: '' @ what e)"
    by (cases e) (simp_all add: geocodeAddress_on_body[OF req])
next
  fix c cs lat lon
  assume "json_parse lib body = Inr (JArray (c # cs))
              \<and> candidate_coordinates lib c = Inr (lat, lon)
              \<and> eq_zero lib lat \<and> eq_zero lib lon"
  then show "geocodeAddress lib address = Unexpected ''Invalid coordinates in geocoding response''"
    by (simp add: geocodeAddress_on_body[OF req] geocode_try_candidate)
next
  fix c cs lat lon
  assume "json_parse lib body = Inr (JArray (c # cs))
              \<and> candidate_coordinates lib c = Inr (lat, lon)
              \<and> \<not> (eq_zero lib lat \<and> eq_zero lib lon)"
  then show "geocodeAddress lib address = Ok (lat, lon)"
    by (auto simp: geocodeAddress_on_body[OF req] geocode_try_candidate)
next
  fix c :: "'a json" and s t
  assume a: "lookup c ''lat'' = Some (JString s) \<and> lookup c ''lon'' = Some (JString t)"
  then have "is_object c" by (cases c) simp_all
  from candidate_coordinates_cases[OF this] a
  show "candidate_coordinates lib c =
              (case stod lib s of
                 Inl m \<Rightarrow> Inl (std_exception m)
               | Inr lat \<Rightarrow> (case stod lib t of
                     Inl m \<Rightarrow> Inl (std_exception m)
                   | Inr lon \<Rightarrow> Inr (lat, lon)))"
    by (simp add: get_string_def std_stod_def split: sum.splits)
next
  fix m n :: string
  show "distinct [''JSON parse error: '' @ n,
              ''Invalid geocoding response: Not an array'',
              ''No geocoding result for address'', ''Error parsing coordinates: '' @ m,
              ''Invalid coordinates in geocoding response'']"
    by simp
qed

theorem geocode_outcomes_witness:
  \<open>geocodeAddress (sample_lib ''{}'') ''Marienplatz''
      = Unexpected ''Invalid geocoding response: Not an array''
   \<and> geocodeAddress (sample_lib ''[]'') ''Marienplatz''
      = Unexpected ''No geocoding result for address''
   \<and> geocodeAddress (sample_lib ''[{"lat":"north","lon":"11.575382"}]'') ''Marienplatz''
      = Unexpected ''Error parsing coordinates: stod''
   \<and> geocodeAddress (sample_lib ''[{"lat":"0","lon":"0"}]'') ''Marienplatz''
      = Unexpected ''Invalid coordinates in geocoding response''
   \<and> geocodeAddress (sample_lib ''[{"lat":"48.137154","lon":"11.575382"}]'') ''Marienplatz''
      = Ok (48.137154, 11.575382)\<close>
proof -
  have p1: \<open>json_parse (sample_lib ''{}'') ''{}'' = Inr (JObject [])\<close>
    and p2: \<open>json_parse (sample_lib ''[]'') ''[]'' = Inr (JArray [])\<close>
    and p3: \<open>json_parse (sample_lib ''[{"lat":"0","lon":"0"}]'') ''[{"lat":"0","lon":"0"}]''
       = Inr (JArray [JObject [(''lat'', JString ''0''), (''lon'', JString ''0'')]])\<close>
    and p4: \<open>json_parse (sample_lib ''[{"lat":"48.137154","lon":"11.575382"}]'')
         ''[{"lat":"48.137154","lon":"11.575382"}]''
       = Inr (JArray [JObject [(''lat'', JString ''48.137154''), (''lon'', JString ''11.575382'')]])\<close>
    and p5: \<open>json_parse (sample_lib ''[{"lat":"north","lon":"11.575382"}]'')
         ''[{"lat":"north","lon":"11.575382"}]''
       = Inr (JArray [JObject [(''lat'', JString ''north''), (''lon'', JString ''11.575382'')]])\<close>
    by (simp_all add: sample_parse_def sample_bodies_def)
  have c3: \<open>candidate_coordinates (sample_lib ''[{"lat":"0","lon":"0"}]'')
        (JObject [(''lat'', JString ''0''), (''lon'', JString ''0'')]) = Inr (0, 0)\<close>
    and c4: \<open>candidate_coordinates (sample_lib ''[{"lat":"48.137154","lon":"11.575382"}]'')
        (JObject [(''lat'', JString ''48.137154''), (''lon'', JString ''11.575382'')])
        = Inr (48.137154, 11.575382)\<close>
    and c5: \<open>candidate_coordinates (sample_lib ''[{"lat":"north","lon":"11.575382"}]'')
        (JObject [(''lat'', JString ''north''), (''lon'', JString ''11.575382'')])
        = Inl (std_exception ''stod'')\<close>
    by (simp_all add: candidate_coordinates_def json_value_def get_string_def std_stod_def
        sample_stod_def)
  note t = geocode_outcomes[OF sample_request, of _ "''Marienplatz''"]
  from t[of \<open>''{}''\<close>] p1
  have r1: \<open>geocodeAddress (sample_lib ''{}'') ''Marienplatz''
      = Unexpected ''Invalid geocoding response: Not an array''\<close>
    by simp
  from t[of \<open>''[]''\<close>] p2
  have r2: \<open>geocodeAddress (sample_lib ''[]'') ''Marienplatz''
      = Unexpected ''No geocoding result for address''\<close>
    by simp
  from t[of \<open>''[{"lat":"north","lon":"11.575382"}]''\<close>] p5 c5
  have r5: \<open>geocodeAddress (sample_lib ''[{"lat":"north","lon":"11.575382"}]'') ''Marienplatz''
      = Unexpected ''Error parsing coordinates: stod''\<close>
    by simp
  from t[of \<open>''[{"lat":"0","lon":"0"}]''\<close>] p3 c3
  have r3: \<open>geocodeAddress (sample_lib ''[{"lat":"0","lon":"0"}]'') ''Marienplatz''
      = Unexpected ''Invalid coordinates in geocoding response''\<close>
    by simp
  from t[of \<open>''[{"lat":"48.137154","lon":"11.575382"}]''\<close>] p4 c4
  have r4: \<open>geocodeAddress (sample_lib ''[{"lat":"48.137154","lon":"11.575382"}]'') ''Marienplatz''
      = Ok (48.137154, 11.575382)\<close>
    by simp
  from r1 r2 r3 r4 r5 show ?thesis by simp
qed

text \<open>
  C7. On N raw elements that are all nodes and all satisfy a whitelist that is not
  empty, the normaliser returns a document with exactly N Pois, the Poi at each position
  being that of the element at the same position, with the tags of that element
  unchanged.
\<close>

theorem all_accepted_nodes_kept_in_order:
  assumes "wl \<noteq> []"
    and "list_all (\<lambda>e. raw_element e \<and> is_node e \<and> spec_accepts wl (element_tags e)) es"
  shows "\<exists>doc pois. buildResultJson lib clat clon radius wl (JArray es) qi = Inr doc
           \<and> results_pois doc = Some (JArray pois)
           \<and> length pois = length es
           \<and> pois = map (spec_poi lib) es
           \<and> (\<forall>i < length es. lookup (pois ! i) ''tags'' = lookup (es ! i) ''tags'')"
proof -
  from assms(2) have raw: "list_all raw_element (items (JArray es))"
    and all: "\<forall>e \<in> set es. is_node e \<and> spec_accepts wl (element_tags e)"
    by (simp_all add: list_all_iff)
  from raw obtain ps where ps: "pois_loop lib wl (items (JArray es)) [] = Inr ps"
    using pois_loop_total by blast
  from buildResultJson_total[OF this] obtain doc where
    doc: "buildResultJson lib clat clon radius wl (JArray es) qi = Inr doc" by blast
  from buildResultJson_Inr[OF doc] ps have rp: "results_pois doc = Some (JArray ps)" by auto
  from all have "filter (\<lambda>e. is_node e \<and> spec_accepts wl (element_tags e)) es = es"
    by (simp add: filter_id_conv)
  with pois_loop_sound[OF ps] have eq: "ps = map (spec_poi lib) es" by simp
  have "lookup (ps ! i) ''tags'' = lookup (es ! i) ''tags''" if "i < length es" for i
  proof -
    from that all have "spec_accepts wl (element_tags (es ! i))" by simp
    from accepted_has_tags[OF assms(1) this] that eq show ?thesis
      by (simp add: spec_poi_tags)
  qed
  with doc rp eq show ?thesis by auto
qed

theorem all_accepted_nodes_kept_in_order_witness:
  "sample_whitelist \<noteq> [] \<and>
   list_all (\<lambda>e. raw_element e \<and> is_node e \<and> spec_accepts sample_whitelist (element_tags e))
     [sample_elements ! 3, sample_elements ! 0] \<and>
   (\<exists>doc pois. buildResultJson (sample_lib []) 48.137154 11.575382 1000 sample_whitelist
          (JArray [sample_elements ! 3, sample_elements ! 0]) JNull = Inr doc
      \<and> results_pois doc = Some (JArray pois)
      \<and> length pois = 2
      \<and> lookup (pois ! 0) ''tags'' = Some (JObject [(''shop'', JString ''bakery'')])
      \<and> lookup (pois ! 1) ''tags''
          = Some (JObject [(''amenity'', JString ''cafe''), (''name'', JString ''Luitpold'')]))"
proof -
  have ne: "sample_whitelist \<noteq> []" by (simp add: sample_whitelist_def)
  have ok: "list_all
      (\<lambda>e. raw_element e \<and> is_node e \<and> spec_accepts sample_whitelist (element_tags e))
      [sample_elements ! 3, sample_elements ! 0]"
    by (simp add: sample_defs)
  from all_accepted_nodes_kept_in_order[OF ne ok,
      of "sample_lib []" "48.137154" "11.575382" 1000 JNull]
  obtain doc pois where d: "buildResultJson (sample_lib []) 48.137154 11.575382 1000
          sample_whitelist (JArray [sample_elements ! 3, sample_elements ! 0]) JNull = Inr doc"
      "results_pois doc = Some (JArray pois)" "length pois = 2"
      "\<forall>i < 2. lookup (pois ! i) ''tags''
          = lookup ([sample_elements ! 3, sample_elements ! 0] ! i) ''tags''"
    by auto
  from d(4) have "lookup (pois ! 0) ''tags'' = lookup (sample_elements ! 3) ''tags''"
    "lookup (pois ! 1) ''tags'' = lookup (sample_elements ! 0) ''tags''"
    by (simp_all add: nth_Cons')
  then have "lookup (pois ! 0) ''tags'' = Some (JObject [(''shop'', JString ''bakery'')])"
    "lookup (pois ! 1) ''tags''
          = Some (JObject [(''amenity'', JString ''cafe''), (''name'', JString ''Luitpold'')])"
    by (simp_all add: sample_elements_def)
  with ne ok d show ?thesis by blast
qed

text \<open>
  C8. For every radius that is not negative, every center within the bounds and every
  whitelist the query is well formed. It is not at the whitelist entry with the key
  \<open>na"me\<close>: the query holds the radius and the two coordinates with six decimals, and
  three quote characters, none of them escaped, so that the quoted key does not end
  where the filter ends.
\<close>

theorem quote_in_key_breaks_query:
  \<open>buildOverpassQuery (sample_lib []) 48.137154 11.575382 1000
       [\<lparr>w_key = ''na"me'', w_value = []\<rparr>] =
     ''[out:json][timeout:25];(node(around:1000,48.137154,11.575382)["na"me"];);out center;''
   \<and> count_list (buildOverpassQuery (sample_lib []) 48.137154 11.575382 1000
       [\<lparr>w_key = ''na"me'', w_value = []\<rparr>]) (CHR 0x22) = 3
   \<and> CHR 0x5C \<notin> set (buildOverpassQuery (sample_lib []) 48.137154 11.575382 1000
       [\<lparr>w_key = ''na"me'', w_value = []\<rparr>])\<close>
  by (simp add: buildOverpassQuery_def around_center_def node_filter_def show_int_def
      show_nat.simps digit_char_def sample_lib_def sample_format_6f_def)

text \<open>
  C9. The Poi of an accepted node has the coordinate 0.0 where the node has no \<open>lat\<close>
  or no \<open>lon\<close>, the empty mapping as tags where the node has no \<open>tags\<close>, the value of
  the \<open>name\<close> tag as name where the tags have one, and null, not the empty string,
  where they have none. A raw element that is a node and passes acceptance has a Poi.
\<close>

theorem poi_fields_of_accepted_node:
  "(\<forall>poi. poi_of_element lib wl e = Inr (Some poi) \<longrightarrow>
       (lookup e ''lat'' = None \<longrightarrow> lookup poi ''lat'' = Some (JFloat (d_zero lib)))
     \<and> (lookup e ''lon'' = None \<longrightarrow> lookup poi ''lon'' = Some (JFloat (d_zero lib)))
     \<and> (lookup e ''tags'' = None \<longrightarrow> lookup poi ''tags'' = Some (JObject []))
     \<and> (\<forall>n. lookup (element_tags e) ''name'' = Some n \<longrightarrow> lookup poi ''name'' = Some n)
     \<and> (lookup (element_tags e) ''name'' = None \<longrightarrow>
          lookup poi ''name'' = Some JNull \<and> lookup poi ''name'' \<noteq> Some (JString [])))
   \<and> (raw_element e \<and> is_node e \<and> spec_accepts wl (element_tags e) \<longrightarrow>
        (\<exists>poi. poi_of_element lib wl e = Inr (Some poi)))"
proof (intro conjI allI impI)
  assume "raw_element e \<and> is_node e \<and> spec_accepts wl (element_tags e)"
  then have r: "raw_element e" and k: "is_node e \<and> spec_accepts wl (element_tags e)"
    by simp_all
  from poi_of_element_total[OF r] obtain x where x: "poi_of_element lib wl e = Inr x" by blast
  from poi_of_element_sound[OF x] k x
  show "\<exists>poi. poi_of_element lib wl e = Inr (Some poi)" by simp
next
  fix poi
  assume a: "poi_of_element lib wl e = Inr (Some poi)"
  from poi_of_element_sound[OF a] have p: "poi = spec_poi lib e"
    by (simp split: if_splits)
  { assume "lookup e ''lat'' = None"
    with p show "lookup poi ''lat'' = Some (JFloat (d_zero lib))"
      by (simp add: spec_poi_def coordinate_def) }
  { assume "lookup e ''lon'' = None"
    with p show "lookup poi ''lon'' = Some (JFloat (d_zero lib))"
      by (simp add: spec_poi_def coordinate_def) }
  { assume "lookup e ''tags'' = None"
    with p show "lookup poi ''tags'' = Some (JObject [])"
      by (simp add: spec_poi_def element_tags_def) }
  { fix n assume "lookup (element_tags e) ''name'' = Some n"
    with p show "lookup poi ''name'' = Some n"
      by (simp add: spec_poi_def) }
  { assume "lookup (element_tags e) ''name'' = None"
    with p show "lookup poi ''name'' = Some JNull" "lookup poi ''name'' \<noteq> Some (JString [])"
      by (simp_all add: spec_poi_def) }
qed

theorem poi_fields_of_accepted_node_witness:
  "raw_element (sample_elements ! 4) \<and> is_node (sample_elements ! 4)
   \<and> spec_accepts [] (element_tags (sample_elements ! 4))
   \<and> lookup (sample_elements ! 4) ''lat'' = None
   \<and> lookup (sample_elements ! 4) ''lon'' = None
   \<and> lookup (sample_elements ! 4) ''tags'' = None
   \<and> (\<exists>poi. poi_of_element (sample_lib []) [] (sample_elements ! 4) = Inr (Some poi)
        \<and> lookup poi ''lat'' = Some (JFloat 0) \<and> lookup poi ''lon'' = Some (JFloat 0)
        \<and> lookup poi ''tags'' = Some (JObject []) \<and> lookup poi ''name'' = Some JNull)"
proof -
  have h: "raw_element (sample_elements ! 4) \<and> is_node (sample_elements ! 4)
      \<and> spec_accepts [] (element_tags (sample_elements ! 4))"
    and m: "lookup (sample_elements ! 4) ''lat'' = None"
      "lookup (sample_elements ! 4) ''lon'' = None"
      "lookup (sample_elements ! 4) ''tags'' = None"
      "lookup (element_tags (sample_elements ! 4)) ''name'' = None"
    by (simp_all add: sample_defs)
  note t = poi_fields_of_accepted_node[of "sample_lib []" "[]" "sample_elements ! 4"]
  from t h obtain poi where
    poi: "poi_of_element (sample_lib []) [] (sample_elements ! 4) = Inr (Some poi)"
    by blast
  with t m have "lookup poi ''lat'' = Some (JFloat (d_zero (sample_lib [])))"
    "lookup poi ''lon'' = Some (JFloat (d_zero (sample_lib [])))"
    "lookup poi ''tags'' = Some (JObject [])" "lookup poi ''name'' = Some JNull"
    by blast+
  then have "lookup poi ''lat'' = Some (JFloat 0)" "lookup poi ''lon'' = Some (JFloat 0)"
    "lookup poi ''tags'' = Some (JObject [])" "lookup poi ''name'' = Some JNull"
    by (simp_all add: sample_lib_def)
  with h m poi show ?thesis by blast
qed

text \<open>
  C10. A missing \<open>lat\<close> or \<open>lon\<close> of the first candidate is read as the text \<open>0.0\<close>
  before the numeric parsing. As the claim states it, every first candidate with one
  field missing resolves successfully; the candidate with only \<open>lat\<close>, and that
  \<open>"0"\<close>, is rejected as the degenerate pair.
\<close>

theorem one_field_missing_other_zero_rejected:
  \<open>json_parse (sample_lib ''[{"lat":"0"}]'') ''[{"lat":"0"}]''
      = Inr (JArray [JObject [(''lat'', JString ''0'')]])
   \<and> lookup (JObject [(''lat'', JString ''0'')] :: real json) ''lat'' = Some (JString ''0'')
   \<and> lookup (JObject [(''lat'', JString ''0'')] :: real json) ''lon'' = None
   \<and> geocodeAddress (sample_lib ''[{"lat":"0"}]'') ''Marienplatz''
       = Unexpected ''Invalid coordinates in geocoding response''\<close>
  by (simp add: sample_parse_def sample_bodies_def geocodeAddress_def geocode_try_def
      candidate_coordinates_def json_value_def get_string_def std_stod_def sample_stod_def)

text \<open>
  C10, amended. A missing \<open>lat\<close> or \<open>lon\<close> of the first candidate is read as the text
  \<open>0.0\<close> before the numeric parsing. Where that text parses to zero, a first candidate
  with one field missing whose other field is a string that parses to a number other
  than zero resolves successfully, with the zero for the missing coordinate, and a first
  candidate with both fields missing is rejected with the error of the degenerate pair.
\<close>

theorem missing_field_read_as_zero:
  assumes req: "performRequest lib (''https://nominatim.openstreetmap.org/search?q=''
             @ urlEncode lib address @ ''&format=json&limit=1'') [] = Ok body"
    and parse: "json_parse lib body = Inr (JArray (c # cs))"
    and obj: "is_object c"
    and z: "stod lib ''0.0'' = Inr z" "eq_zero lib z"
  shows "(\<forall>k. lookup c k = None \<longrightarrow> json_value get_string c k ''0.0'' = Inr ''0.0'')
       \<and> (\<forall>s y. lookup c ''lat'' = None \<and> lookup c ''lon'' = Some (JString s)
              \<and> stod lib s = Inr y \<and> \<not> eq_zero lib y \<longrightarrow>
            geocodeAddress lib address = Ok (z, y))
       \<and> (\<forall>s x. lookup c ''lat'' = Some (JString s) \<and> lookup c ''lon'' = None
              \<and> stod lib s = Inr x \<and> \<not> eq_zero lib x \<longrightarrow>
            geocodeAddress lib address = Ok (x, z))
       \<and> (lookup c ''lat'' = None \<and> lookup c ''lon'' = None \<longrightarrow>
            geocodeAddress lib address = Unexpected ''Invalid coordinates in geocoding response'')"
proof (intro conjI allI impI)
  fix k assume "lookup c k = None"
  with obj show "json_value get_string c k ''0.0'' = Inr ''0.0''"
    by (rule json_value_missing)
next
  fix s y
  assume a: "lookup c ''lat'' = None \<and> lookup c ''lon'' = Some (JString s)
              \<and> stod lib s = Inr y \<and> \<not> eq_zero lib y"
  with z have "candidate_coordinates lib c = Inr (z, y)"
    by (simp add: candidate_coordinates_cases[OF obj] std_stod_def get_string_def)
  with a show "geocodeAddress lib address = Ok (z, y)"
    by (simp add: geocodeAddress_on_body[OF req] geocode_try_candidate[OF parse])
next
  fix s x
  assume a: "lookup c ''lat'' = Some (JString s) \<and> lookup c ''lon'' = None
              \<and> stod lib s = Inr x \<and> \<not> eq_zero lib x"
  with z have "candidate_coordinates lib c = Inr (x, z)"
    by (simp add: candidate_coordinates_cases[OF obj] std_stod_def get_string_def)
  with a show "geocodeAddress lib address = Ok (x, z)"
    by (simp add: geocodeAddress_on_body[OF req] geocode_try_candidate[OF parse])
next
  assume "lookup c ''lat'' = None \<and> lookup c ''lon'' = None"
  with z have "candidate_coordinates lib c = Inr (z, z)"
    by (simp add: candidate_coordinates_cases[OF obj] std_stod_def)
  with z show "geocodeAddress lib address = Unexpected ''Invalid coordinates in geocoding response''"
    by (simp add: geocodeAddress_on_body[OF req] geocode_try_candidate[OF parse])
qed

theorem missing_field_read_as_zero_witness:
  \<open>geocodeAddress (sample_lib ''[{"lon":"11.575382"}]'') ''Marienplatz'' = Ok (0, 11.575382)
   \<and> geocodeAddress (sample_lib ''[{}]'') ''Marienplatz''
       = Unexpected ''Invalid coordinates in geocoding response''\<close>
proof -
  have p1: \<open>json_parse (sample_lib ''[{"lon":"11.575382"}]'') ''[{"lon":"11.575382"}]''
       = Inr (JArray [JObject [(''lon'', JString ''11.575382'')]])\<close>
    and p2: \<open>json_parse (sample_lib ''[{}]'') ''[{}]'' = Inr (JArray [JObject []])\<close>
    by (simp_all add: sample_parse_def sample_bodies_def)
  have z: "stod (sample_lib b) ''0.0'' = Inr 0" "eq_zero (sample_lib b) 0" for b
    by (simp_all add: sample_stod_def)
  have s: "stod (sample_lib b) ''11.575382'' = Inr 11.575382" for b
    by (simp add: sample_stod_def)
  show ?thesis
    using missing_field_read_as_zero[OF sample_request p1 _ z, of "''Marienplatz''"]
      missing_field_read_as_zero[OF sample_request p2 _ z, of "''Marienplatz''"] s
    by simp
qed

end
